theory Spec2Isabelle
  imports Complex_Main
begin

section \<open>Dashboard Builder: data model\<close>

text \<open>
  The page component \<^verbatim>\<open>DashboardBuilder\<close> keeps a grid of widgets and, for each of
  five responsive breakpoints, an array of layout items. The definitions below follow
  the TypeScript declarations of the component one by one.

  A JavaScript number is a double. The component never computes with numbers beyond
  \<^verbatim>\<open>Math.min\<close>, so a finite number is kept as the real it denotes, next to the
  three non-finite values.
\<close>

datatype number = Fin real | PosInfinity | NegInfinity | NaN

fun Math_min :: "number \<Rightarrow> number \<Rightarrow> number" where
  "Math_min NaN b = NaN"
| "Math_min a NaN = NaN"
| "Math_min NegInfinity b = NegInfinity"
| "Math_min a NegInfinity = NegInfinity"
| "Math_min PosInfinity b = b"
| "Math_min a PosInfinity = a"
| "Math_min (Fin a) (Fin b) = Fin (min a b)"

text \<open>The comparison \<^verbatim>\<open>a <= b\<close> of two numbers: false as soon as one side is NaN.\<close>

fun num_le :: "number \<Rightarrow> number \<Rightarrow> bool" where
  "num_le NaN b = False"
| "num_le a NaN = False"
| "num_le NegInfinity b = True"
| "num_le a PosInfinity = True"
| "num_le a NegInfinity = False"
| "num_le PosInfinity b = False"
| "num_le (Fin a) (Fin b) = (a \<le> b)"

text \<open>Values of TypeScript type \<^verbatim>\<open>any\<close>: query results and widget data.\<close>

datatype json =
    JNull
  | JBool bool
  | JNum number
  | JStr string
  | JArr "json list"
  | JObj "(string \<times> json) list"

datatype BreakPoint = LG | MD | SM | XS | XXS

datatype WidgetType = Bar | Pie | Line | Table | Area

datatype Aggregation = AggSum | AggAvg | AggCount | AggMin | AggMax

text \<open>
  A row of a result set is an object, kept as its properties in enumeration order.
  A result set is an object whose property \<^verbatim>\<open>results\<close> (when present) is the
  array of rows.
\<close>

type_synonym row = "(string \<times> json) list"

record ResultSet =
  rs_results :: "row list option"

record SavedQuery =
  query_id :: string
  query_title :: string
  query_description :: "string option"
  query_text :: string
  query_results :: "ResultSet list option"

record LayoutItem =
  item_i :: string
  item_x :: number
  item_y :: number
  item_w :: number
  item_h :: number

record Layout =
  bp_lg :: "LayoutItem list"
  bp_md :: "LayoutItem list"
  bp_sm :: "LayoutItem list"
  bp_xs :: "LayoutItem list"
  bp_xxs :: "LayoutItem list"

record VisualizationConfig =
  vc_type :: WidgetType
  xAxis :: "string option"
  yAxis :: "string option"
  aggregation :: "Aggregation option"

record Widget =
  widget_id :: string
  widget_type :: WidgetType
  widget_title :: string
  savedQuery :: "SavedQuery option"
  visualConfig :: "VisualizationConfig option"
  widget_x :: number
  widget_y :: number
  widget_w :: number
  widget_h :: number
  widget_data :: "json option"

record DashboardState =
  layouts :: Layout
  widgets :: "Widget list"

subsection \<open>Constants\<close>

fun COLS :: "BreakPoint \<Rightarrow> number" where
  "COLS LG = Fin 12"
| "COLS MD = Fin 10"
| "COLS SM = Fin 6"
| "COLS XS = Fin 4"
| "COLS XXS = Fin 2"

definition INITIAL_LAYOUT :: Layout where
  "INITIAL_LAYOUT = \<lparr>bp_lg = [], bp_md = [], bp_sm = [], bp_xs = [], bp_xxs = []\<rparr>"

definition initialDashboardState :: DashboardState where
  "initialDashboardState = \<lparr>layouts = INITIAL_LAYOUT, widgets = []\<rparr>"

fun layout_at :: "Layout \<Rightarrow> BreakPoint \<Rightarrow> LayoutItem list" where
  "layout_at l LG = bp_lg l"
| "layout_at l MD = bp_md l"
| "layout_at l SM = bp_sm l"
| "layout_at l XS = bp_xs l"
| "layout_at l XXS = bp_xxs l"

subsection \<open>Template literals\<close>

text \<open>
  \<^verbatim>\<open>`${n}`\<close> for a non-negative integer below \<open>10^21\<close> is its decimal notation;
  \<^verbatim>\<open>Date.now()\<close> is such an integer (milliseconds since the epoch).
\<close>

definition digit_char :: "nat \<Rightarrow> char" where
  "digit_char d = char_of (48 + d)"

fun show_nat :: "nat \<Rightarrow> string" where
  "show_nat n = (if n < 10 then [digit_char n] else show_nat (n div 10) @ [digit_char (n mod 10)])"

declare show_nat.simps [simp del]

fun type_name :: "WidgetType \<Rightarrow> string" where
  "type_name Bar = ''bar''"
| "type_name Pie = ''pie''"
| "type_name Line = ''line''"
| "type_name Table = ''table''"
| "type_name Area = ''area''"

section \<open>State transformers\<close>

subsection \<open>addWidget\<close>

text \<open>
  \<^verbatim>\<open>addWidget(type)\<close> reads the clock once, for the id of the new widget; the clock
  reading \<open>now\<close> is an argument of the model. The functional update
  \<^verbatim>\<open>setDashboardState(prev => ...)\<close> is the function from \<open>prev\<close> to the new state.
\<close>

definition newWidget :: "nat \<Rightarrow> WidgetType \<Rightarrow> Widget" where
  "newWidget now ty =
     \<lparr>widget_id = ''widget-'' @ show_nat now,
      widget_type = ty,
      widget_title = ''New '' @ type_name ty @ '' Widget'',
      savedQuery = None,
      visualConfig = None,
      widget_x = Fin 0,
      widget_y = PosInfinity,
      widget_w = Fin 6,
      widget_h = Fin 4,
      widget_data = None\<rparr>"

definition layoutOf :: "Widget \<Rightarrow> LayoutItem" where
  "layoutOf nw =
     \<lparr>item_i = widget_id nw, item_x = widget_x nw, item_y = widget_y nw,
      item_w = widget_w nw, item_h = widget_h nw\<rparr>"

definition addWidget :: "nat \<Rightarrow> WidgetType \<Rightarrow> DashboardState \<Rightarrow> DashboardState" where
  "addWidget now ty prev =
     (let nw = newWidget now ty; layout = layoutOf nw in
      prev\<lparr>layouts := (layouts prev)
               \<lparr>bp_lg := bp_lg (layouts prev) @ [layout],
                bp_md := bp_md (layouts prev) @ [layout\<lparr>item_w := Math_min (item_w layout) (COLS MD)\<rparr>],
                bp_sm := bp_sm (layouts prev) @ [layout\<lparr>item_w := Math_min (item_w layout) (COLS SM)\<rparr>],
                bp_xs := bp_xs (layouts prev) @ [layout\<lparr>item_w := Math_min (item_w layout) (COLS XS)\<rparr>],
                bp_xxs := bp_xxs (layouts prev) @ [layout\<lparr>item_w := Math_min (item_w layout) (COLS XXS)\<rparr>]\<rparr>,
           widgets := widgets prev @ [nw]\<rparr>)"

text \<open>A run of \<^verbatim>\<open>addWidget\<close> calls, each with its clock reading and its type.\<close>

fun addWidgets :: "(nat \<times> WidgetType) list \<Rightarrow> DashboardState \<Rightarrow> DashboardState" where
  "addWidgets [] s = s"
| "addWidgets ((now, ty) # calls) s = addWidgets calls (addWidget now ty s)"

subsection \<open>updateWidget and onLayoutChange\<close>

text \<open>
  \<^verbatim>\<open>Partial<Widget>\<close>: every property may be absent (\<open>None\<close>). For the optional
  properties of a widget a present property may hold \<^verbatim>\<open>undefined\<close>
  (\<open>Some None\<close>), as in the call
  \<^verbatim>\<open>updateWidget(id, { savedQuery: undefined, visualConfig: undefined })\<close>.
\<close>

record WidgetUpdates =
  upd_id :: "string option"
  upd_type :: "WidgetType option"
  upd_title :: "string option"
  upd_savedQuery :: "SavedQuery option option"
  upd_visualConfig :: "VisualizationConfig option option"
  upd_x :: "number option"
  upd_y :: "number option"
  upd_w :: "number option"
  upd_h :: "number option"
  upd_data :: "json option option"

definition noUpdates :: WidgetUpdates where
  "noUpdates =
     \<lparr>upd_id = None, upd_type = None, upd_title = None, upd_savedQuery = None,
      upd_visualConfig = None, upd_x = None, upd_y = None, upd_w = None, upd_h = None,
      upd_data = None\<rparr>"

text \<open>One property of the spread \<^verbatim>\<open>{ ...w, ...updates }\<close>.\<close>

fun spread :: "'a \<Rightarrow> 'a option \<Rightarrow> 'a" where
  "spread old None = old"
| "spread old (Some v) = v"

definition mergeWidget :: "Widget \<Rightarrow> WidgetUpdates \<Rightarrow> Widget" where
  "mergeWidget w updates =
     \<lparr>widget_id = spread (widget_id w) (upd_id updates),
      widget_type = spread (widget_type w) (upd_type updates),
      widget_title = spread (widget_title w) (upd_title updates),
      savedQuery = spread (savedQuery w) (upd_savedQuery updates),
      visualConfig = spread (visualConfig w) (upd_visualConfig updates),
      widget_x = spread (widget_x w) (upd_x updates),
      widget_y = spread (widget_y w) (upd_y updates),
      widget_w = spread (widget_w w) (upd_w updates),
      widget_h = spread (widget_h w) (upd_h updates),
      widget_data = spread (widget_data w) (upd_data updates)\<rparr>"

definition updateWidget :: "string \<Rightarrow> WidgetUpdates \<Rightarrow> DashboardState \<Rightarrow> DashboardState" where
  "updateWidget i updates prev =
     prev\<lparr>widgets := map (\<lambda>w. if widget_id w = i then mergeWidget w updates else w) (widgets prev)\<rparr>"

definition onLayoutChange :: "Layout \<Rightarrow> DashboardState \<Rightarrow> DashboardState" where
  "onLayoutChange ls prev = prev\<lparr>layouts := ls\<rparr>"

subsection \<open>The widget/layout invariant\<close>

definition breakpoints :: "BreakPoint list" where
  "breakpoints = [LG, MD, SM, XS, XXS]"

definition item_count :: "string \<Rightarrow> LayoutItem list \<Rightarrow> nat" where
  "item_count k items = length (filter (\<lambda>it. item_i it = k) items)"

definition one_item_each :: "DashboardState \<Rightarrow> bool" where
  "one_item_each s =
     list_all (\<lambda>bp. list_all (\<lambda>w. item_count (widget_id w) (layout_at (layouts s) bp) = 1) (widgets s))
       breakpoints"

definition widths_within_cols :: "DashboardState \<Rightarrow> bool" where
  "widths_within_cols s =
     list_all (\<lambda>bp. list_all (\<lambda>it. num_le (item_w it) (COLS bp)) (layout_at (layouts s) bp))
       breakpoints"

definition widget_key :: "nat \<Rightarrow> string" where
  "widget_key now = ''widget-'' @ show_nat now"

definition read_nat :: "string \<Rightarrow> nat" where
  "read_nat s = foldl (\<lambda>a c. 10 * a + (of_char c - 48)) 0 s"

section \<open>Persistence\<close>

record PersistedWidget =
  pw_id :: string
  pw_type :: WidgetType
  pw_title :: string
  pw_query :: "string option"
  pw_options :: "VisualizationConfig option"
  pw_data :: "json option"

record Dashboard =
  d_id :: string
  d_name :: string
  d_description :: string
  d_layout :: Layout
  d_widgets :: "PersistedWidget list"
  createdAt :: string
  updatedAt :: string

text \<open>
  Modelled from the spec: \<^verbatim>\<open>DashboardService\<close> (\<^verbatim>\<open>@/services/DashboardService\<close>
  is not among the sources). The spec gives it as a key-value store keyed by dashboard
  id: \<^verbatim>\<open>saveDashboard(record)\<close> is an upsert by \<^verbatim>\<open>record.id\<close>, and
  \<^verbatim>\<open>getDashboardById(id)\<close> returns the record or \<^verbatim>\<open>undefined\<close>. Its error
  taxonomy has the storage call throw (PersistenceError); whether storage accepts a
  write is the argument \<open>available\<close>, and \<open>None\<close> is the throw.
\<close>

type_synonym DashboardStore = "string \<rightharpoonup> Dashboard"

definition DashboardService_saveDashboard ::
    "bool \<Rightarrow> Dashboard \<Rightarrow> DashboardStore \<Rightarrow> DashboardStore option" where
  "DashboardService_saveDashboard available d st =
     (if available then Some (st(d_id d \<mapsto> d)) else None)"

definition DashboardService_getDashboardById :: "string \<Rightarrow> DashboardStore \<Rightarrow> Dashboard option" where
  "DashboardService_getDashboardById i st = st i"

datatype variant = Default | Destructive

text \<open>
  The text \<^verbatim>\<open>JSON.stringify(value, null, space)\<close> is kept as the JSON value and the
  indentation, not spelled out character by character; parsing it gives the value.
\<close>

datatype json_text = JSON_stringify json nat

fun JSON_parse :: "json_text \<Rightarrow> json" where
  "JSON_parse (JSON_stringify v space) = v"

text \<open>What the page does to the outside, in the order it does it.\<close>

datatype effect =
    Toast string string variant
  | Navigate string
  | ConsoleError string
  | ServiceSave Dashboard
  | Download string json_text

text \<open>
  The component: the route parameter, its state hooks, and its surroundings (the
  service's store, whether storage accepts writes, the build-time RPC variable, and the
  log of effects).
\<close>

record Builder =
  dashboardId :: "string option"
  dashboardName :: string
  dashboardDescription :: string
  dashboardState :: DashboardState
  service :: DashboardStore
  storageAvailable :: bool
  VITE_STARKNET_RPC_URL :: "string option"
  effects :: "effect list"

text \<open>\<^verbatim>\<open>a || b\<close> on strings: the empty string and \<^verbatim>\<open>undefined\<close> are falsy.\<close>

fun truthy :: "string option \<Rightarrow> bool" where
  "truthy None = False"
| "truthy (Some s) = (s \<noteq> [])"

fun or_else :: "string option \<Rightarrow> string \<Rightarrow> string" where
  "or_else None d = d"
| "or_else (Some s) d = (if s \<noteq> [] then s else d)"

definition RPC_ENDPOINT :: "Builder \<Rightarrow> string" where
  "RPC_ENDPOINT b =
     or_else (VITE_STARKNET_RPC_URL b) ''https://starknet-mainnet.reddio.com/rpc/v0_7''"

subsection \<open>saveDashboard\<close>

definition persistWidget :: "Widget \<Rightarrow> PersistedWidget" where
  "persistWidget widget =
     \<lparr>pw_id = widget_id widget,
      pw_type = widget_type widget,
      pw_title = widget_title widget,
      pw_query = map_option query_text (savedQuery widget),
      pw_options = visualConfig widget,
      pw_data = widget_data widget\<rparr>"

definition dashboardConfig :: "nat \<Rightarrow> string \<Rightarrow> string \<Rightarrow> Builder \<Rightarrow> Dashboard" where
  "dashboardConfig now iso1 iso2 b =
     \<lparr>d_id = or_else (dashboardId b) (''dashboard-'' @ show_nat now),
      d_name = dashboardName b,
      d_description = dashboardDescription b,
      d_layout = layouts (dashboardState b),
      d_widgets = map persistWidget (widgets (dashboardState b)),
      createdAt = iso1,
      updatedAt = iso2\<rparr>"

text \<open>
  \<open>now\<close> is the reading of \<^verbatim>\<open>Date.now()\<close>; \<open>iso1\<close> and \<open>iso2\<close> are the two
  \<^verbatim>\<open>new Date().toISOString()\<close> texts. The \<^verbatim>\<open>try\<close> body is the first and the last
  branch; the \<^verbatim>\<open>catch\<close> block is the branch taken when the service call throws.
\<close>

definition saveDashboard :: "nat \<Rightarrow> string \<Rightarrow> string \<Rightarrow> Builder \<Rightarrow> Builder" where
  "saveDashboard now iso1 iso2 b =
     (if dashboardName b = [] then
        b\<lparr>effects := effects b @ [Toast ''Error'' ''Please enter a dashboard name'' Destructive]\<rparr>
      else
        let config = dashboardConfig now iso1 iso2 b in
        (case DashboardService_saveDashboard (storageAvailable b) config (service b) of
           None \<Rightarrow>
             b\<lparr>effects := effects b @
                 [ServiceSave config,
                  ConsoleError ''Error saving dashboard:'',
                  Toast ''Error'' ''Failed to save dashboard'' Destructive]\<rparr>
         | Some st \<Rightarrow>
             b\<lparr>service := st,
               effects := effects b @
                 [ServiceSave config] @
                 (if \<not> truthy (dashboardId b) then [Navigate (''/dashboard/'' @ d_id config)] else []) @
                 [Toast ''Success'' ''Dashboard saved successfully'' Default]\<rparr>))"

subsection \<open>The load effect\<close>

definition loadedWidget :: "PersistedWidget \<Rightarrow> Widget" where
  "loadedWidget widget =
     \<lparr>widget_id = pw_id widget,
      widget_type = pw_type widget,
      widget_title = pw_title widget,
      savedQuery =
        (case pw_query widget of
           None \<Rightarrow> None
         | Some query \<Rightarrow>
             if query \<noteq> [] then
               Some \<lparr>query_id = ''query-'' @ pw_id widget,
                     query_title = pw_title widget,
                     query_description = Some [],
                     query_text = query,
                     query_results = None\<rparr>
             else None),
      visualConfig = pw_options widget,
      widget_x = Fin 0,
      widget_y = Fin 0,
      widget_w = Fin 6,
      widget_h = Fin 4,
      widget_data = pw_data widget\<rparr>"

definition loadDashboard :: "Builder \<Rightarrow> Builder" where
  "loadDashboard b =
     (case dashboardId b of
        None \<Rightarrow> b
      | Some i \<Rightarrow>
          if i = [] then b
          else
            (case DashboardService_getDashboardById i (service b) of
               Some dashboard \<Rightarrow>
                 b\<lparr>dashboardName := d_name dashboard,
                   dashboardDescription :=
                     (if d_description dashboard \<noteq> [] then d_description dashboard
                      else dashboardDescription b),
                   dashboardState :=
                     \<lparr>layouts = d_layout dashboard,
                      widgets = map loadedWidget (d_widgets dashboard)\<rparr>,
                   effects := effects b @
                     [Toast ''Dashboard loaded'' ''Successfully loaded dashboard'' Default]\<rparr>
             | None \<Rightarrow>
                 b\<lparr>effects := effects b @
                     [Toast ''Error'' ''Dashboard not found'' Destructive,
                      Navigate ''/dashboard'']\<rparr>))"

section \<open>Export\<close>

text \<open>
  What \<^verbatim>\<open>JSON.stringify\<close> writes for each kind of value: a property holding
  \<^verbatim>\<open>undefined\<close> is left out, and a number that is not finite is written \<^verbatim>\<open>null\<close>.
  Properties are listed in the order of the interface declarations.
\<close>

fun number_json :: "number \<Rightarrow> json" where
  "number_json (Fin r) = JNum (Fin r)"
| "number_json PosInfinity = JNull"
| "number_json NegInfinity = JNull"
| "number_json NaN = JNull"

fun any_json :: "json \<Rightarrow> json" where
  "any_json JNull = JNull"
| "any_json (JBool b) = JBool b"
| "any_json (JNum n) = number_json n"
| "any_json (JStr s) = JStr s"
| "any_json (JArr vs) = JArr (map any_json vs)"
| "any_json (JObj kvs) = JObj (map (\<lambda>kv. (fst kv, any_json (snd kv))) kvs)"

fun optional :: "string \<Rightarrow> json option \<Rightarrow> (string \<times> json) list" where
  "optional k None = []"
| "optional k (Some v) = [(k, v)]"

fun aggregation_name :: "Aggregation \<Rightarrow> string" where
  "aggregation_name AggSum = ''sum''"
| "aggregation_name AggAvg = ''avg''"
| "aggregation_name AggCount = ''count''"
| "aggregation_name AggMin = ''min''"
| "aggregation_name AggMax = ''max''"

definition resultSet_json :: "ResultSet \<Rightarrow> json" where
  "resultSet_json rs =
     JObj (optional ''results''
       (map_option (\<lambda>rows. JArr (map (\<lambda>r. any_json (JObj r)) rows)) (rs_results rs)))"

definition savedQuery_json :: "SavedQuery \<Rightarrow> json" where
  "savedQuery_json q =
     JObj ([(''id'', JStr (query_id q)), (''title'', JStr (query_title q))]
       @ optional ''description'' (map_option JStr (query_description q))
       @ [(''query_text'', JStr (query_text q))]
       @ optional ''results'' (map_option (\<lambda>rs. JArr (map resultSet_json rs)) (query_results q)))"

definition visualConfig_json :: "VisualizationConfig \<Rightarrow> json" where
  "visualConfig_json c =
     JObj ([(''type'', JStr (type_name (vc_type c)))]
       @ optional ''xAxis'' (map_option JStr (xAxis c))
       @ optional ''yAxis'' (map_option JStr (yAxis c))
       @ optional ''aggregation'' (map_option (\<lambda>a. JStr (aggregation_name a)) (aggregation c)))"

definition widget_json :: "Widget \<Rightarrow> json" where
  "widget_json w =
     JObj ([(''id'', JStr (widget_id w)),
            (''type'', JStr (type_name (widget_type w))),
            (''title'', JStr (widget_title w))]
       @ optional ''savedQuery'' (map_option savedQuery_json (savedQuery w))
       @ optional ''visualConfig'' (map_option visualConfig_json (visualConfig w))
       @ [(''x'', number_json (widget_x w)), (''y'', number_json (widget_y w)),
          (''w'', number_json (widget_w w)), (''h'', number_json (widget_h w))]
       @ optional ''data'' (map_option any_json (widget_data w)))"

definition layoutItem_json :: "LayoutItem \<Rightarrow> json" where
  "layoutItem_json it =
     JObj [(''i'', JStr (item_i it)), (''x'', number_json (item_x it)),
           (''y'', number_json (item_y it)), (''w'', number_json (item_w it)),
           (''h'', number_json (item_h it))]"

definition layouts_json :: "Layout \<Rightarrow> json" where
  "layouts_json l =
     JObj [(''lg'', JArr (map layoutItem_json (bp_lg l))),
           (''md'', JArr (map layoutItem_json (bp_md l))),
           (''sm'', JArr (map layoutItem_json (bp_sm l))),
           (''xs'', JArr (map layoutItem_json (bp_xs l))),
           (''xxs'', JArr (map layoutItem_json (bp_xxs l)))]"

definition dashboardData :: "Builder \<Rightarrow> json" where
  "dashboardData b =
     JObj [(''name'', JStr (dashboardName b)),
           (''description'', JStr (dashboardDescription b)),
           (''layouts'', layouts_json (layouts (dashboardState b))),
           (''widgets'', JArr (map widget_json (widgets (dashboardState b)))),
           (''rpc_endpoint'', JStr (RPC_ENDPOINT b))]"

definition exportName :: "nat \<Rightarrow> Builder \<Rightarrow> string" where
  "exportName now b = or_else (Some (dashboardName b)) ''dashboard'' @ ''_'' @ show_nat now @ ''.json''"

text \<open>
  \<open>now\<close> is the reading of \<^verbatim>\<open>Date.now()\<close> for the file name. With values of the
  types above \<^verbatim>\<open>JSON.stringify\<close> has nothing to throw on (no cycles, no BigInt), so
  the \<^verbatim>\<open>catch\<close> block of the export has no branch here.
\<close>

definition exportDashboard :: "nat \<Rightarrow> Builder \<Rightarrow> Builder" where
  "exportDashboard now b =
     (let dataStr = JSON_stringify (dashboardData b) 2 in
      b\<lparr>effects := effects b @
          [Download (exportName now b) dataStr,
           Toast ''Success'' ''Dashboard exported successfully'' Default]\<rparr>)"

text \<open>Reading a parsed JSON value.\<close>

fun object_keys :: "json \<Rightarrow> string list" where
  "object_keys (JObj kvs) = map fst kvs"
| "object_keys v = []"

fun property :: "string \<Rightarrow> json \<Rightarrow> json option" where
  "property k (JObj kvs) = map_of kvs k"
| "property k v = None"

fun elements :: "json \<Rightarrow> json list" where
  "elements (JArr vs) = vs"
| "elements v = []"

section \<open>Axis candidates\<close>

text \<open>
  \<^verbatim>\<open>Number(value)\<close> on a string follows the grammar \<open>StringNumericLiteral\<close> of
  ECMAScript: white space around, then nothing (the value 0), a signed decimal literal
  (digits with an optional fraction and exponent, or \<^verbatim>\<open>Infinity\<close>), or an unsigned
  binary, octal or hexadecimal integer literal. Any other text gives NaN. Only whether
  the result is NaN is needed here. Characters are code units below 256.
\<close>

definition is_white :: "char \<Rightarrow> bool" where
  "is_white c = (of_char c \<in> {9::nat, 10, 11, 12, 13, 32, 160})"

definition trim :: "string \<Rightarrow> string" where
  "trim s = rev (dropWhile is_white (rev (dropWhile is_white s)))"

definition is_digit :: "char \<Rightarrow> bool" where
  "is_digit c = (48 \<le> (of_char c :: nat) \<and> (of_char c :: nat) \<le> 57)"

definition is_hex_digit :: "char \<Rightarrow> bool" where
  "is_hex_digit c =
     (is_digit c \<or> (65 \<le> (of_char c :: nat) \<and> (of_char c :: nat) \<le> 70)
       \<or> (97 \<le> (of_char c :: nat) \<and> (of_char c :: nat) \<le> 102))"

definition is_octal_digit :: "char \<Rightarrow> bool" where
  "is_octal_digit c = (48 \<le> (of_char c :: nat) \<and> (of_char c :: nat) \<le> 55)"

definition is_binary_digit :: "char \<Rightarrow> bool" where
  "is_binary_digit c = (c = CHR ''0'' \<or> c = CHR ''1'')"

definition digits :: "string \<Rightarrow> bool" where
  "digits s = (s \<noteq> [] \<and> list_all is_digit s)"

fun strip_sign :: "string \<Rightarrow> string" where
  "strip_sign [] = []"
| "strip_sign (c # cs) = (if c = CHR ''+'' \<or> c = CHR ''-'' then cs else c # cs)"

definition exponent_part :: "string \<Rightarrow> bool" where
  "exponent_part s = (s = [] \<or> ((hd s = CHR ''e'' \<or> hd s = CHR ''E'') \<and> digits (strip_sign (tl s))))"

text \<open>
  An unsigned decimal literal: \<open>digits . [digits] [exponent]\<close>,
  \<open>. digits [exponent]\<close> or \<open>digits [exponent]\<close>.
\<close>

definition unsigned_decimal :: "string \<Rightarrow> bool" where
  "unsigned_decimal s =
     (let whole = takeWhile is_digit s; rest = dropWhile is_digit s in
      case rest of
        [] \<Rightarrow> whole \<noteq> []
      | c # cs \<Rightarrow>
          if c = CHR ''.'' then
            (let frac = takeWhile is_digit cs; ex = dropWhile is_digit cs in
             (whole \<noteq> [] \<or> frac \<noteq> []) \<and> exponent_part ex)
          else whole \<noteq> [] \<and> exponent_part rest)"

fun non_decimal :: "string \<Rightarrow> bool" where
  "non_decimal (z # p # ds) =
     (z = CHR ''0'' \<and> ds \<noteq> [] \<and>
       (if p = CHR ''x'' \<or> p = CHR ''X'' then list_all is_hex_digit ds
        else if p = CHR ''o'' \<or> p = CHR ''O'' then list_all is_octal_digit ds
        else if p = CHR ''b'' \<or> p = CHR ''B'' then list_all is_binary_digit ds
        else False))"
| "non_decimal s = False"

definition string_numeric :: "string \<Rightarrow> bool" where
  "string_numeric s =
     (let t = trim s in
      t = [] \<or> non_decimal t \<or> strip_sign t = ''Infinity'' \<or> unsigned_decimal (strip_sign t))"

text \<open>
  \<^verbatim>\<open>isNaN(Number(value))\<close>. \<^verbatim>\<open>null\<close> and the booleans convert to 0 or 1. An array
  converts through its text, the elements joined by commas with \<^verbatim>\<open>null\<close> as the empty
  text: no element gives the empty text, one element the text of that element, and two
  or more a text with a comma, which is no numeric literal. The text of a number other
  than NaN is a numeric literal; the texts \<^verbatim>\<open>true\<close>, \<^verbatim>\<open>false\<close>, \<^verbatim>\<open>NaN\<close> and
  \<^verbatim>\<open>[object Object]\<close> are not.
\<close>

fun isNaN_Number :: "json \<Rightarrow> bool" where
  "isNaN_Number JNull = False"
| "isNaN_Number (JBool b) = False"
| "isNaN_Number (JNum n) = (n = NaN)"
| "isNaN_Number (JStr s) = (\<not> string_numeric s)"
| "isNaN_Number (JArr []) = False"
| "isNaN_Number (JArr [JNull]) = False"
| "isNaN_Number (JArr [JBool b]) = True"
| "isNaN_Number (JArr [JNum n]) = (n = NaN)"
| "isNaN_Number (JArr [JStr s]) = (\<not> string_numeric s)"
| "isNaN_Number (JArr [JArr vs]) = isNaN_Number (JArr vs)"
| "isNaN_Number (JArr [JObj kvs]) = True"
| "isNaN_Number (JArr (v # w # vs)) = True"
| "isNaN_Number (JObj kvs) = True"

fun typeof_number :: "json \<Rightarrow> bool" where
  "typeof_number (JNum n) = True"
| "typeof_number v = False"

text \<open>
  The options of the Y-axis select for the bound query \<open>q\<close>: nothing unless
  \<^verbatim>\<open>q.results?.[0]?.results\<close> is there; then the keys of its first row (of \<^verbatim>\<open>{}\<close>
  when there is no row) whose value passes the filter.
\<close>

definition yAxisOptions :: "SavedQuery \<Rightarrow> string list" where
  "yAxisOptions q =
     (case query_results q of
        None \<Rightarrow> []
      | Some [] \<Rightarrow> []
      | Some (rs # _) \<Rightarrow>
          (case rs_results rs of
             None \<Rightarrow> []
           | Some rows \<Rightarrow>
               (let first = (case rows of [] \<Rightarrow> [] | r # _ \<Rightarrow> r) in
                filter (\<lambda>key. case map_of first key of
                                None \<Rightarrow> False
                              | Some value \<Rightarrow> typeof_number value \<or> \<not> isNaN_Number value)
                  (map fst first))))"

section \<open>The component at mount, and sample states\<close>

text \<open>The initial values of the state hooks, with no route id and an empty store.\<close>

definition initialBuilder :: Builder where
  "initialBuilder =
     \<lparr>dashboardId = None, dashboardName = [], dashboardDescription = [],
      dashboardState = initialDashboardState, service = Map.empty, storageAvailable = True,
      VITE_STARKNET_RPC_URL = None, effects = []\<rparr>"

definition blocksQuery :: "string \<Rightarrow> SavedQuery" where
  "blocksQuery txt =
     \<lparr>query_id = ''q-17'', query_title = ''Blocks per day'',
      query_description = Some ''Daily block count'', query_text = txt,
      query_results = None\<rparr>"

definition boundState :: "string \<Rightarrow> DashboardState" where
  "boundState txt =
     updateWidget ''widget-1000'' (noUpdates\<lparr>upd_savedQuery := Some (Some (blocksQuery txt))\<rparr>)
       (addWidget 1000 Bar initialDashboardState)"

definition editedBuilder :: "string \<Rightarrow> string \<Rightarrow> Builder" where
  "editedBuilder descr txt =
     initialBuilder\<lparr>dashboardName := ''Sales'', dashboardDescription := descr,
       dashboardState := boundState txt\<rparr>"

definition revisit :: "string \<Rightarrow> Builder \<Rightarrow> Builder" where
  "revisit descr b = b\<lparr>dashboardId := Some ''dashboard-1000'', dashboardDescription := descr\<rparr>"

definition storedDashboard :: "string \<Rightarrow> Dashboard" where
  "storedDashboard descr =
     \<lparr>d_id = ''dashboard-7'', d_name = ''Fees'', d_description = descr,
      d_layout = layouts (boundState ''SELECT 1''),
      d_widgets = map persistWidget (widgets (boundState ''SELECT 1'')),
      createdAt = ''t1'', updatedAt = ''t2''\<rparr>"

definition visitingBuilder :: "string \<Rightarrow> DashboardStore \<Rightarrow> Builder" where
  "visitingBuilder i st =
     initialBuilder\<lparr>dashboardId := Some i, dashboardName := ''Sales'',
       dashboardDescription := ''Weekly'', service := st\<rparr>"

definition sampleRow :: row where
  "sampleRow = [(''a'', JStr ''x''), (''b'', JNum (Fin 5)), (''c'', JStr ''3'')]"

definition queryWithRows :: "row list \<Rightarrow> SavedQuery" where
  "queryWithRows rows = (blocksQuery ''SELECT 1'')\<lparr>query_results := Some [\<lparr>rs_results = Some rows\<rparr>]\<rparr>"

section \<open>Properties\<close>

subsection \<open>Adding widgets\<close>

text \<open>
  C4. For each of the five visualization types and every dashboard state,
  \<^verbatim>\<open>addWidget\<close> returns a state (it has no error branch); the widget it appends has
  size \<open>w = 6\<close>, \<open>h = 4\<close> and position \<open>x = 0\<close>, \<open>y = Infinity\<close>; every
  breakpoint's array grows by exactly one item, keyed by the new widget's id, at
  \<open>x = 0\<close>, \<open>y = Infinity\<close>, whose width is \<open>min(6, columns of the breakpoint)\<close>
  and whose height is 4, unclamped.
\<close>

theorem addWidget_defaults:
  "widgets (addWidget now ty s) = widgets s @ [newWidget now ty]
   \<and> widget_type (newWidget now ty) = ty
   \<and> widget_w (newWidget now ty) = Fin 6 \<and> widget_h (newWidget now ty) = Fin 4
   \<and> widget_x (newWidget now ty) = Fin 0 \<and> widget_y (newWidget now ty) = PosInfinity
   \<and> layout_at (layouts (addWidget now ty s)) bp =
       layout_at (layouts s) bp @
         [\<lparr>item_i = widget_id (newWidget now ty), item_x = Fin 0, item_y = PosInfinity,
           item_w = Math_min (Fin 6) (COLS bp), item_h = Fin 4\<rparr>]"
  by (cases bp) (simp_all add: addWidget_def newWidget_def layoutOf_def Let_def)

subsection \<open>Decimal notation is injective\<close>

lemma of_char_digit_char: "d < 10 \<Longrightarrow> of_char (digit_char d) = 48 + d"
  by (simp add: digit_char_def)

lemma read_show_nat: "read_nat (show_nat n) = n"
proof (induction n rule: show_nat.induct)
  case (1 n)
  show ?case
  proof (cases "n < 10")
    case True
    then show ?thesis
      by (simp add: show_nat.simps [of n] read_nat_def of_char_digit_char)
  next
    case False
    with 1 have ih: "read_nat (show_nat (n div 10)) = n div 10" by simp
    have "read_nat (show_nat n) =
        10 * read_nat (show_nat (n div 10)) + (of_char (digit_char (n mod 10)) - 48)"
      using False by (simp add: show_nat.simps [of n] read_nat_def)
    also have "\<dots> = 10 * (n div 10) + n mod 10"
      by (simp add: ih of_char_digit_char)
    finally show ?thesis by simp
  qed
qed

lemma show_nat_inj: "show_nat a = show_nat b \<Longrightarrow> a = b"
  by (metis read_show_nat)

lemma widget_key_inj: "inj widget_key"
  by (auto simp: inj_on_def widget_key_def dest: show_nat_inj)

lemma show_nat_1000: "show_nat 1000 = ''1000''"
  by code_simp

subsection \<open>Ids and layout keys after a run of addWidget\<close>

lemma widget_id_newWidget: "widget_id (newWidget now ty) = widget_key now"
  by (simp add: newWidget_def widget_key_def)

lemma addWidget_ids:
  "map widget_id (widgets (addWidget now ty s)) = map widget_id (widgets s) @ [widget_key now]"
  by (simp add: addWidget_def Let_def widget_id_newWidget)

lemma addWidget_keys:
  "map item_i (layout_at (layouts (addWidget now ty s)) bp) =
     map item_i (layout_at (layouts s) bp) @ [widget_key now]"
  by (cases bp) (simp_all add: addWidget_def Let_def layoutOf_def widget_id_newWidget)

lemma addWidgets_ids:
  "map widget_id (widgets (addWidgets calls s)) =
     map widget_id (widgets s) @ map (widget_key \<circ> fst) calls"
  by (induction calls s rule: addWidgets.induct) (simp_all add: addWidget_ids)

lemma addWidgets_keys:
  "map item_i (layout_at (layouts (addWidgets calls s)) bp) =
     map item_i (layout_at (layouts s) bp) @ map (widget_key \<circ> fst) calls"
  by (induction calls s rule: addWidgets.induct) (simp_all add: addWidget_keys)

lemma item_count_keys: "item_count k items = count_list (map item_i items) k"
  by (induction items) (simp_all add: item_count_def)

lemma count_list_distinct: "distinct ks \<Longrightarrow> k \<in> set ks \<Longrightarrow> count_list ks k = 1"
  by (induction ks) (auto simp: count_list_0_iff)

lemma keys_initial: "map item_i (layout_at (layouts initialDashboardState) bp) = []"
  by (cases bp) (simp_all add: initialDashboardState_def INITIAL_LAYOUT_def)

text \<open>
  As long as no two calls read the same clock value, the widgets and the five layout
  arrays stay in step: one item per widget and breakpoint.
\<close>

lemma one_item_each_distinct_clock:
  assumes "distinct (map fst calls)"
  shows "one_item_each (addWidgets calls initialDashboardState)"
proof -
  let ?s = "addWidgets calls initialDashboardState"
  let ?ks = "map (widget_key \<circ> fst) calls"
  have ids: "map widget_id (widgets ?s) = ?ks"
    by (simp add: addWidgets_ids initialDashboardState_def)
  have keys: "map item_i (layout_at (layouts ?s) bp) = ?ks" for bp
    by (simp add: addWidgets_keys keys_initial)
  have d: "distinct ?ks"
    using assms widget_key_inj
    by (metis distinct_map inj_on_subset map_map subset_UNIV)
  have "item_count (widget_id w) (layout_at (layouts ?s) bp) = 1"
    if "w \<in> set (widgets ?s)" for w bp
  proof -
    from that have "widget_id w \<in> set ?ks"
      using ids by (metis image_eqI set_map)
    with d show ?thesis
      by (simp only: item_count_keys keys count_list_distinct)
  qed
  then show ?thesis
    by (simp add: one_item_each_def list_all_iff)
qed

text \<open>The width bound needs nothing of the clock.\<close>

lemma addWidget_widths:
  "widths_within_cols s \<Longrightarrow> widths_within_cols (addWidget now ty s)"
  by (simp add: widths_within_cols_def breakpoints_def addWidget_def Let_def layoutOf_def
      newWidget_def)

lemma addWidgets_widths:
  "widths_within_cols s \<Longrightarrow> widths_within_cols (addWidgets calls s)"
  by (induction calls s rule: addWidgets.induct) (simp_all add: addWidget_widths)

lemma widths_reachable: "widths_within_cols (addWidgets calls initialDashboardState)"
  by (rule addWidgets_widths)
    (simp add: widths_within_cols_def breakpoints_def initialDashboardState_def INITIAL_LAYOUT_def)

text \<open>
  C1. Every state reached from the empty state by \<^verbatim>\<open>addWidget\<close> calls should hold,
  for each widget and each breakpoint, exactly one layout item keyed by the widget's id,
  of width within the breakpoint's columns. The id is \<^verbatim>\<open>`widget-${Date.now()}`\<close>:
  two calls that read the same millisecond give two widgets one id, and then each
  breakpoint holds two items under that key. The run below is two calls at clock 1000.
\<close>

theorem addWidget_same_clock_two_items:
  "map widget_id (widgets (addWidgets [(1000, Bar), (1000, Pie)] initialDashboardState))
     = [''widget-1000'', ''widget-1000'']
   \<and> map (\<lambda>bp. item_count ''widget-1000''
          (layout_at (layouts (addWidgets [(1000, Bar), (1000, Pie)] initialDashboardState)) bp))
        breakpoints
     = [2, 2, 2, 2, 2]
   \<and> \<not> one_item_each (addWidgets [(1000, Bar), (1000, Pie)] initialDashboardState)
   \<and> widths_within_cols (addWidgets [(1000, Bar), (1000, Pie)] initialDashboardState)"
  by (simp add: addWidget_def newWidget_def layoutOf_def Let_def initialDashboardState_def
      INITIAL_LAYOUT_def show_nat_1000 item_count_def breakpoints_def one_item_each_def
      widths_within_cols_def)

text \<open>
  C3. Each \<^verbatim>\<open>addWidget\<close> call should give its widget an id that no widget of the
  state has yet. A call at a clock value that an earlier call has read repeats that
  call's id: after \<^verbatim>\<open>addWidget("bar")\<close> at clock 1000, the widget that
  \<^verbatim>\<open>addWidget("pie")\<close> creates at clock 1000 has the id of the one already there.
\<close>

theorem addWidget_same_clock_id_repeats:
  "widget_id (newWidget 1000 Pie)
     \<in> set (map widget_id (widgets (addWidget 1000 Bar initialDashboardState)))
   \<and> \<not> distinct (map widget_id
          (widgets (addWidget 1000 Pie (addWidget 1000 Bar initialDashboardState))))"
  by (simp add: addWidget_def newWidget_def Let_def initialDashboardState_def)

subsection \<open>Updating a widget\<close>

text \<open>
  C5. \<^verbatim>\<open>updateWidget(id, updates)\<close> leaves the layouts and the number and order of
  widgets as they are; a widget with another id is unchanged; on a widget with that id
  each property is the supplied one when \<open>updates\<close> has it and the old one otherwise;
  and when no widget has the id the state is returned as it was.
\<close>

theorem updateWidget_partial_merge:
  "layouts (updateWidget i u s) = layouts s
   \<and> length (widgets (updateWidget i u s)) = length (widgets s)
   \<and> (\<forall>k < length (widgets s).
        (widget_id (widgets s ! k) \<noteq> i \<longrightarrow> widgets (updateWidget i u s) ! k = widgets s ! k)
      \<and> (widget_id (widgets s ! k) = i \<longrightarrow>
           (upd_id u = None \<longrightarrow> widget_id (widgets (updateWidget i u s) ! k) = i)
         \<and> (upd_type u = None \<longrightarrow>
              widget_type (widgets (updateWidget i u s) ! k) = widget_type (widgets s ! k))
         \<and> (upd_title u = None \<longrightarrow>
              widget_title (widgets (updateWidget i u s) ! k) = widget_title (widgets s ! k))
         \<and> (upd_savedQuery u = None \<longrightarrow>
              savedQuery (widgets (updateWidget i u s) ! k) = savedQuery (widgets s ! k))
         \<and> (upd_visualConfig u = None \<longrightarrow>
              visualConfig (widgets (updateWidget i u s) ! k) = visualConfig (widgets s ! k))
         \<and> (upd_x u = None \<longrightarrow>
              widget_x (widgets (updateWidget i u s) ! k) = widget_x (widgets s ! k))
         \<and> (upd_y u = None \<longrightarrow>
              widget_y (widgets (updateWidget i u s) ! k) = widget_y (widgets s ! k))
         \<and> (upd_w u = None \<longrightarrow>
              widget_w (widgets (updateWidget i u s) ! k) = widget_w (widgets s ! k))
         \<and> (upd_h u = None \<longrightarrow>
              widget_h (widgets (updateWidget i u s) ! k) = widget_h (widgets s ! k))
         \<and> (upd_data u = None \<longrightarrow>
              widget_data (widgets (updateWidget i u s) ! k) = widget_data (widgets s ! k))
         \<and> (\<forall>v. upd_id u = Some v \<longrightarrow> widget_id (widgets (updateWidget i u s) ! k) = v)
         \<and> (\<forall>v. upd_type u = Some v \<longrightarrow> widget_type (widgets (updateWidget i u s) ! k) = v)
         \<and> (\<forall>v. upd_title u = Some v \<longrightarrow> widget_title (widgets (updateWidget i u s) ! k) = v)
         \<and> (\<forall>v. upd_savedQuery u = Some v \<longrightarrow> savedQuery (widgets (updateWidget i u s) ! k) = v)
         \<and> (\<forall>v. upd_visualConfig u = Some v \<longrightarrow>
              visualConfig (widgets (updateWidget i u s) ! k) = v)
         \<and> (\<forall>v. upd_x u = Some v \<longrightarrow> widget_x (widgets (updateWidget i u s) ! k) = v)
         \<and> (\<forall>v. upd_y u = Some v \<longrightarrow> widget_y (widgets (updateWidget i u s) ! k) = v)
         \<and> (\<forall>v. upd_w u = Some v \<longrightarrow> widget_w (widgets (updateWidget i u s) ! k) = v)
         \<and> (\<forall>v. upd_h u = Some v \<longrightarrow> widget_h (widgets (updateWidget i u s) ! k) = v)
         \<and> (\<forall>v. upd_data u = Some v \<longrightarrow> widget_data (widgets (updateWidget i u s) ! k) = v)))
   \<and> ((\<forall>w \<in> set (widgets s). widget_id w \<noteq> i) \<longrightarrow> updateWidget i u s = s)"
proof -
  have noop: "updateWidget i u s = s" if "\<forall>w \<in> set (widgets s). widget_id w \<noteq> i"
  proof -
    have "map (\<lambda>w. if widget_id w = i then mergeWidget w u else w) (widgets s) = widgets s"
      using that by (simp add: map_idI)
    then show ?thesis by (simp add: updateWidget_def)
  qed
  have fields: "widgets (updateWidget i u s) ! k =
      (if widget_id (widgets s ! k) = i then mergeWidget (widgets s ! k) u else widgets s ! k)"
    if "k < length (widgets s)" for k
    using that by (simp add: updateWidget_def)
  show ?thesis
    using noop by (simp add: fields) (simp add: updateWidget_def mergeWidget_def)
qed

text \<open>An instance: renaming the one widget of a state, and an id that no widget has.\<close>

theorem updateWidget_partial_merge_witness:
  "widget_title (widgets (updateWidget ''widget-1000'' (noUpdates\<lparr>upd_title := Some ''X''\<rparr>)
        (boundState ''SELECT 1'')) ! 0) = ''X''
   \<and> widget_type (widgets (updateWidget ''widget-1000'' (noUpdates\<lparr>upd_title := Some ''X''\<rparr>)
        (boundState ''SELECT 1'')) ! 0) = Bar
   \<and> savedQuery (widgets (updateWidget ''widget-1000'' (noUpdates\<lparr>upd_title := Some ''X''\<rparr>)
        (boundState ''SELECT 1'')) ! 0) = Some (blocksQuery ''SELECT 1'')
   \<and> visualConfig (widgets (updateWidget ''widget-1000'' (noUpdates\<lparr>upd_title := Some ''X''\<rparr>)
        (boundState ''SELECT 1'')) ! 0) = None
   \<and> updateWidget ''widget-9'' (noUpdates\<lparr>upd_title := Some ''X''\<rparr>) (boundState ''SELECT 1'')
        = boundState ''SELECT 1''"
proof -
  let ?s = "boundState ''SELECT 1''"
  let ?u = "noUpdates\<lparr>upd_title := Some ''X''\<rparr>"
  have ws: "widgets ?s = [(newWidget 1000 Bar)\<lparr>savedQuery := Some (blocksQuery ''SELECT 1'')\<rparr>]"
    by (simp add: boundState_def updateWidget_def mergeWidget_def noUpdates_def addWidget_def
        newWidget_def initialDashboardState_def show_nat_1000 Let_def)
  have k: "0 < length (widgets ?s)"
    by (simp add: ws)
  have hit: "widget_id (widgets ?s ! 0) = ''widget-1000''"
    by (simp add: ws newWidget_def show_nat_1000)
  have miss: "\<forall>w \<in> set (widgets ?s). widget_id w \<noteq> ''widget-9''"
    by (simp add: ws newWidget_def show_nat_1000)
  have u: "upd_title ?u = Some ''X''" "upd_type ?u = None" "upd_savedQuery ?u = None"
    "upd_visualConfig ?u = None"
    by (simp_all add: noUpdates_def)
  note at0 = updateWidget_partial_merge [of "''widget-1000''" ?u ?s,
      THEN conjunct2, THEN conjunct2, THEN conjunct1, rule_format, OF k]
  have a: "widget_title (widgets (updateWidget ''widget-1000'' ?u ?s) ! 0) = ''X''"
    and b: "widget_type (widgets (updateWidget ''widget-1000'' ?u ?s) ! 0) = widget_type (widgets ?s ! 0)"
    and c: "savedQuery (widgets (updateWidget ''widget-1000'' ?u ?s) ! 0) = savedQuery (widgets ?s ! 0)"
    and d: "visualConfig (widgets (updateWidget ''widget-1000'' ?u ?s) ! 0) = visualConfig (widgets ?s ! 0)"
    using at0 hit u by simp_all
  note none = updateWidget_partial_merge [of "''widget-9''" ?u ?s,
      THEN conjunct2, THEN conjunct2, THEN conjunct2, THEN mp, OF miss]
  have e: "updateWidget ''widget-9'' ?u ?s = ?s"
    by (rule none)
  show ?thesis
    using a b c d e by (simp add: ws newWidget_def)
qed

subsection \<open>Saving\<close>

text \<open>
  C6. With an empty \<open>dashboardName\<close>, \<^verbatim>\<open>saveDashboard\<close> raises the validation
  toast and returns: the only effect added is that toast (so the service is not called
  and nothing is navigated), and the store, the dashboard state and every other part of
  the component are as before.
\<close>

theorem saveDashboard_empty_name:
  "dashboardName b = [] \<Longrightarrow>
     saveDashboard now iso1 iso2 b =
       b\<lparr>effects := effects b @ [Toast ''Error'' ''Please enter a dashboard name'' Destructive]\<rparr>
     \<and> effects (saveDashboard now iso1 iso2 b) =
         effects b @ [Toast ''Error'' ''Please enter a dashboard name'' Destructive]
     \<and> service (saveDashboard now iso1 iso2 b) = service b
     \<and> dashboardState (saveDashboard now iso1 iso2 b) = dashboardState b"
  by (simp add: saveDashboard_def)

text \<open>An instance: saving from the component as mounted, whose name is empty.\<close>

theorem saveDashboard_empty_name_witness:
  "dashboardName initialBuilder = []
   \<and> effects (saveDashboard 1000 ''t1'' ''t2'' initialBuilder)
       = [Toast ''Error'' ''Please enter a dashboard name'' Destructive]
   \<and> dashboardState (saveDashboard 1000 ''t1'' ''t2'' initialBuilder) = initialDashboardState"
proof -
  have h: "dashboardName initialBuilder = []"
    by (simp add: initialBuilder_def)
  show ?thesis
    using saveDashboard_empty_name [OF h, of 1000 "''t1''" "''t2''"] h
    by (simp add: initialBuilder_def)
qed

subsection \<open>Loading\<close>

text \<open>
  C7. With a route id for which \<^verbatim>\<open>getDashboardById\<close> returns nothing, the load
  effect raises the not-found toast and navigates to \<^verbatim>\<open>/dashboard\<close>; the name, the
  description and the dashboard state are not touched.
\<close>

theorem load_not_found:
  "dashboardId b = Some i \<Longrightarrow> i \<noteq> [] \<Longrightarrow>
   DashboardService_getDashboardById i (service b) = None \<Longrightarrow>
     loadDashboard b =
       b\<lparr>effects := effects b @
           [Toast ''Error'' ''Dashboard not found'' Destructive, Navigate ''/dashboard'']\<rparr>
     \<and> dashboardName (loadDashboard b) = dashboardName b
     \<and> dashboardDescription (loadDashboard b) = dashboardDescription b
     \<and> dashboardState (loadDashboard b) = dashboardState b"
  by (simp add: loadDashboard_def)

text \<open>An instance: an id the empty store does not hold.\<close>

theorem load_not_found_witness:
  "DashboardService_getDashboardById ''dashboard-9'' (service (visitingBuilder ''dashboard-9'' Map.empty)) = None
   \<and> effects (loadDashboard (visitingBuilder ''dashboard-9'' Map.empty))
       = [Toast ''Error'' ''Dashboard not found'' Destructive, Navigate ''/dashboard'']
   \<and> dashboardName (loadDashboard (visitingBuilder ''dashboard-9'' Map.empty)) = ''Sales''
   \<and> dashboardDescription (loadDashboard (visitingBuilder ''dashboard-9'' Map.empty)) = ''Weekly''"
proof -
  let ?b = "visitingBuilder ''dashboard-9'' Map.empty"
  have h1: "dashboardId ?b = Some ''dashboard-9''"
    by (simp add: visitingBuilder_def)
  have h2: "''dashboard-9'' \<noteq> []"
    by simp
  have h3: "DashboardService_getDashboardById ''dashboard-9'' (service ?b) = None"
    by (simp add: visitingBuilder_def DashboardService_getDashboardById_def)
  show ?thesis
    using load_not_found [OF h1 h2 h3] h3
    by (simp add: visitingBuilder_def initialBuilder_def)
qed

text \<open>
  C10. When the load effect finds the dashboard, the description is assigned only if the
  stored one is a non-empty string; with an empty stored description the component's
  description stays what it was, while the name, the layouts and the widgets are
  replaced by the stored ones.
\<close>

theorem load_description_guard:
  "dashboardId b = Some i \<Longrightarrow> i \<noteq> [] \<Longrightarrow>
   DashboardService_getDashboardById i (service b) = Some d \<Longrightarrow>
     (d_description d = [] \<longrightarrow> dashboardDescription (loadDashboard b) = dashboardDescription b)
   \<and> (d_description d \<noteq> [] \<longrightarrow> dashboardDescription (loadDashboard b) = d_description d)
   \<and> dashboardName (loadDashboard b) = d_name d
   \<and> layouts (dashboardState (loadDashboard b)) = d_layout d
   \<and> widgets (dashboardState (loadDashboard b)) = map loadedWidget (d_widgets d)"
  by (simp add: loadDashboard_def)

text \<open>An instance: the stored description empty, and then non-empty.\<close>

theorem load_description_guard_witness:
  "DashboardService_getDashboardById ''dashboard-7''
       (service (visitingBuilder ''dashboard-7'' [''dashboard-7'' \<mapsto> storedDashboard []]))
     = Some (storedDashboard [])
   \<and> d_description (storedDashboard []) = []
   \<and> dashboardDescription
       (loadDashboard (visitingBuilder ''dashboard-7'' [''dashboard-7'' \<mapsto> storedDashboard []]))
     = ''Weekly''
   \<and> dashboardName
       (loadDashboard (visitingBuilder ''dashboard-7'' [''dashboard-7'' \<mapsto> storedDashboard []]))
     = ''Fees''
   \<and> dashboardDescription
       (loadDashboard (visitingBuilder ''dashboard-7'' [''dashboard-7'' \<mapsto> storedDashboard ''Daily'']))
     = ''Daily''"
proof -
  let ?b = "\<lambda>descr. visitingBuilder ''dashboard-7'' [''dashboard-7'' \<mapsto> storedDashboard descr]"
  have h1: "dashboardId (?b descr) = Some ''dashboard-7''" for descr
    by (simp add: visitingBuilder_def)
  have h2: "''dashboard-7'' \<noteq> []"
    by simp
  have h3: "DashboardService_getDashboardById ''dashboard-7'' (service (?b descr))
      = Some (storedDashboard descr)" for descr
    by (simp add: visitingBuilder_def DashboardService_getDashboardById_def)
  have d: "d_description (storedDashboard descr) = descr" "d_name (storedDashboard descr) = ''Fees''"
    for descr
    by (simp_all add: storedDashboard_def)
  have old: "dashboardDescription (?b descr) = ''Weekly''" for descr
    by (simp add: visitingBuilder_def)
  show ?thesis
    using load_description_guard [OF h1 h2 h3, of "[]"]
      load_description_guard [OF h1 h2 h3, of "''Daily''"] h3 [of "[]"]
    by (simp add: d old)
qed

subsection \<open>Save, then load\<close>

lemma or_else_nonempty: "d \<noteq> [] \<Longrightarrow> or_else x d \<noteq> []"
  by (cases x) simp_all

lemma config_id_nonempty: "d_id (dashboardConfig now iso1 iso2 b) \<noteq> []"
  by (simp add: dashboardConfig_def or_else_nonempty)

lemma saved_lookup:
  "storageAvailable b \<Longrightarrow> dashboardName b \<noteq> [] \<Longrightarrow>
   DashboardService_getDashboardById (d_id (dashboardConfig now iso1 iso2 b))
     (service (saveDashboard now iso1 iso2 b)) = Some (dashboardConfig now iso1 iso2 b)"
  by (simp add: saveDashboard_def DashboardService_saveDashboard_def
      DashboardService_getDashboardById_def Let_def)

lemma loaded_persisted_fields:
  "widget_id (loadedWidget (persistWidget w)) = widget_id w
   \<and> widget_type (loadedWidget (persistWidget w)) = widget_type w
   \<and> widget_title (loadedWidget (persistWidget w)) = widget_title w
   \<and> visualConfig (loadedWidget (persistWidget w)) = visualConfig w
   \<and> widget_data (loadedWidget (persistWidget w)) = widget_data w"
  by (simp add: loadedWidget_def persistWidget_def)

lemma loaded_persisted_query:
  "savedQuery (loadedWidget (persistWidget w)) =
     (case savedQuery w of
        None \<Rightarrow> None
      | Some q \<Rightarrow>
          if query_text q = [] then None
          else Some \<lparr>query_id = ''query-'' @ widget_id w, query_title = widget_title w,
                     query_description = Some [], query_text = query_text q,
                     query_results = None\<rparr>)"
  by (simp add: loadedWidget_def persistWidget_def split: option.splits)

text \<open>
  C2. A dashboard saved with a non-empty name (storage accepting the write) and then
  loaded by its id, in a component that may hold anything at that moment: the name and
  the layouts are the saved ones; the description is the saved one when that is
  non-empty, and otherwise stays what the component held; the widgets come back in the
  same number and order with their id, title, type and visualization config; a widget
  bound to a query whose text is non-empty comes back bound to the synthetic query
  \<^verbatim>\<open>{id: "query-" + widgetId, title: widget title, query_text, description: ""}\<close>,
  and a widget with no query, or with a query of empty text, comes back unbound.
\<close>

theorem save_load_round_trip:
  assumes name: "dashboardName b \<noteq> []"
    and avail: "storageAvailable b"
    and store: "service c = service (saveDashboard now iso1 iso2 b)"
    and route: "dashboardId c = Some (d_id (dashboardConfig now iso1 iso2 b))"
  shows "dashboardName (loadDashboard c) = dashboardName b
    \<and> layouts (dashboardState (loadDashboard c)) = layouts (dashboardState b)
    \<and> dashboardDescription (loadDashboard c) =
        (if dashboardDescription b \<noteq> [] then dashboardDescription b else dashboardDescription c)
    \<and> length (widgets (dashboardState (loadDashboard c))) = length (widgets (dashboardState b))
    \<and> (\<forall>k < length (widgets (dashboardState b)).
          widget_id (widgets (dashboardState (loadDashboard c)) ! k)
            = widget_id (widgets (dashboardState b) ! k)
        \<and> widget_title (widgets (dashboardState (loadDashboard c)) ! k)
            = widget_title (widgets (dashboardState b) ! k)
        \<and> widget_type (widgets (dashboardState (loadDashboard c)) ! k)
            = widget_type (widgets (dashboardState b) ! k)
        \<and> visualConfig (widgets (dashboardState (loadDashboard c)) ! k)
            = visualConfig (widgets (dashboardState b) ! k)
        \<and> savedQuery (widgets (dashboardState (loadDashboard c)) ! k)
            = (case savedQuery (widgets (dashboardState b) ! k) of
                 None \<Rightarrow> None
               | Some q \<Rightarrow>
                   if query_text q = [] then None
                   else Some \<lparr>query_id = ''query-'' @ widget_id (widgets (dashboardState b) ! k),
                              query_title = widget_title (widgets (dashboardState b) ! k),
                              query_description = Some [],
                              query_text = query_text q,
                              query_results = None\<rparr>))"
proof -
  let ?d = "dashboardConfig now iso1 iso2 b"
  have found: "DashboardService_getDashboardById (d_id ?d) (service c) = Some ?d"
    using saved_lookup [OF avail name] store by simp
  have loaded: "loadDashboard c =
      c\<lparr>dashboardName := d_name ?d,
        dashboardDescription :=
          (if d_description ?d \<noteq> [] then d_description ?d else dashboardDescription c),
        dashboardState := \<lparr>layouts = d_layout ?d, widgets = map loadedWidget (d_widgets ?d)\<rparr>,
        effects := effects c @
          [Toast ''Dashboard loaded'' ''Successfully loaded dashboard'' Default]\<rparr>"
    using route found config_id_nonempty [of now iso1 iso2 b]
    by (simp add: loadDashboard_def)
  have ws: "widgets (dashboardState (loadDashboard c)) =
      map (\<lambda>w. loadedWidget (persistWidget w)) (widgets (dashboardState b))"
    by (simp add: loaded dashboardConfig_def comp_def)
  show ?thesis
    by (simp add: ws loaded_persisted_fields loaded_persisted_query)
      (simp add: loaded dashboardConfig_def)
qed

text \<open>
  The round trip as C2 states it fails in two places. The dashboard below is saved with
  an empty description and one widget bound to a query of empty text; it is loaded in a
  component whose description reads \<^verbatim>\<open>Other\<close>. After the load the description
  is still \<^verbatim>\<open>Other\<close>, not the saved empty one, and the widget has no query.
\<close>

theorem save_load_round_trip_counterexample:
  "dashboardName (editedBuilder [] []) \<noteq> []
   \<and> DashboardService_getDashboardById ''dashboard-1000''
        (service (saveDashboard 1000 ''t1'' ''t2'' (editedBuilder [] [])))
       = Some (dashboardConfig 1000 ''t1'' ''t2'' (editedBuilder [] []))
   \<and> dashboardDescription (editedBuilder [] []) = []
   \<and> dashboardDescription
        (loadDashboard (revisit ''Other'' (saveDashboard 1000 ''t1'' ''t2'' (editedBuilder [] []))))
       \<noteq> dashboardDescription (editedBuilder [] [])
   \<and> dashboardDescription
        (loadDashboard (revisit ''Other'' (saveDashboard 1000 ''t1'' ''t2'' (editedBuilder [] []))))
       = ''Other''
   \<and> savedQuery (widgets (dashboardState (editedBuilder [] [])) ! 0) = Some (blocksQuery [])
   \<and> savedQuery (widgets (dashboardState
        (loadDashboard (revisit ''Other'' (saveDashboard 1000 ''t1'' ''t2'' (editedBuilder [] []))))) ! 0)
       = None"
  by (simp add: editedBuilder_def initialBuilder_def boundState_def revisit_def blocksQuery_def
      saveDashboard_def dashboardConfig_def DashboardService_saveDashboard_def
      DashboardService_getDashboardById_def loadDashboard_def loadedWidget_def persistWidget_def
      updateWidget_def mergeWidget_def noUpdates_def addWidget_def newWidget_def layoutOf_def
      initialDashboardState_def INITIAL_LAYOUT_def show_nat_1000 Let_def)

text \<open>An instance: a description and a query text that are not empty.\<close>

theorem save_load_round_trip_witness:
  "dashboardName (editedBuilder ''Weekly'' ''SELECT 1'') \<noteq> []
   \<and> storageAvailable (editedBuilder ''Weekly'' ''SELECT 1'')
   \<and> dashboardName (loadDashboard (revisit ''Other''
        (saveDashboard 1000 ''t1'' ''t2'' (editedBuilder ''Weekly'' ''SELECT 1'')))) = ''Sales''
   \<and> dashboardDescription (loadDashboard (revisit ''Other''
        (saveDashboard 1000 ''t1'' ''t2'' (editedBuilder ''Weekly'' ''SELECT 1'')))) = ''Weekly''
   \<and> savedQuery (widgets (dashboardState (loadDashboard (revisit ''Other''
        (saveDashboard 1000 ''t1'' ''t2'' (editedBuilder ''Weekly'' ''SELECT 1''))))) ! 0)
       = Some \<lparr>query_id = ''query-widget-1000'', query_title = ''New bar Widget'',
                query_description = Some [], query_text = ''SELECT 1'', query_results = None\<rparr>"
proof -
  let ?b = "editedBuilder ''Weekly'' ''SELECT 1''"
  let ?c = "revisit ''Other'' (saveDashboard 1000 ''t1'' ''t2'' ?b)"
  have name: "dashboardName ?b \<noteq> []"
    by (simp add: editedBuilder_def)
  have avail: "storageAvailable ?b"
    by (simp add: editedBuilder_def initialBuilder_def)
  have store: "service ?c = service (saveDashboard 1000 ''t1'' ''t2'' ?b)"
    by (simp add: revisit_def)
  have route: "dashboardId ?c = Some (d_id (dashboardConfig 1000 ''t1'' ''t2'' ?b))"
    by (simp add: revisit_def dashboardConfig_def editedBuilder_def initialBuilder_def
        show_nat_1000)
  have ws: "widgets (dashboardState ?b) =
      [(newWidget 1000 Bar)\<lparr>savedQuery := Some (blocksQuery ''SELECT 1'')\<rparr>]"
    by (simp add: editedBuilder_def boundState_def updateWidget_def mergeWidget_def
        noUpdates_def addWidget_def newWidget_def initialDashboardState_def show_nat_1000 Let_def)
  have descr: "dashboardDescription ?b = ''Weekly''"
    by (simp add: editedBuilder_def)
  have nm: "dashboardName ?b = ''Sales''"
    by (simp add: editedBuilder_def)
  show ?thesis
    using save_load_round_trip [OF name avail store route] name avail
    by (simp add: ws descr nm newWidget_def blocksQuery_def show_nat_1000)
qed

subsection \<open>Export\<close>

lemma property_id_widget_json: "property ''id'' (widget_json w) = Some (JStr (widget_id w))"
  by (simp add: widget_json_def)

lemma property_savedQuery_widget_json:
  "property ''savedQuery'' (widget_json w) = map_option savedQuery_json (savedQuery w)"
  by (cases "savedQuery w"; cases "visualConfig w"; cases "widget_data w")
    (simp_all add: widget_json_def)

text \<open>
  C8. \<^verbatim>\<open>exportDashboard\<close> adds one download and the success toast and changes
  nothing else. The file name is the dashboard name, or \<^verbatim>\<open>dashboard\<close> when the name
  is empty, then an underscore, the clock reading and \<^verbatim>\<open>.json\<close>. The text is
  \<^verbatim>\<open>JSON.stringify\<close> with indentation 2 of an object whose keys are exactly
  \<^verbatim>\<open>name\<close>, \<^verbatim>\<open>description\<close>, \<^verbatim>\<open>layouts\<close>, \<^verbatim>\<open>widgets\<close>,
  \<^verbatim>\<open>rpc_endpoint\<close>. Parsed, its \<^verbatim>\<open>widgets\<close> array has one element per widget in
  memory, in order, each carrying that widget's id and its full query object, not only
  the query text. Strings are taken to be well-formed, so \<^verbatim>\<open>encodeURIComponent\<close>
  does not throw.
\<close>

theorem exportDashboard_contents:
  "exportDashboard now b =
     b\<lparr>effects := effects b @
         [Download ((if dashboardName b = [] then ''dashboard'' else dashboardName b)
                     @ ''_'' @ show_nat now @ ''.json'')
            (JSON_stringify (dashboardData b) 2),
          Toast ''Success'' ''Dashboard exported successfully'' Default]\<rparr>
   \<and> object_keys (JSON_parse (JSON_stringify (dashboardData b) 2))
       = [''name'', ''description'', ''layouts'', ''widgets'', ''rpc_endpoint'']
   \<and> map_option elements (property ''widgets'' (JSON_parse (JSON_stringify (dashboardData b) 2)))
       = Some (map widget_json (widgets (dashboardState b)))
   \<and> length (map widget_json (widgets (dashboardState b))) = length (widgets (dashboardState b))
   \<and> map (property ''id'') (map widget_json (widgets (dashboardState b)))
       = map (\<lambda>w. Some (JStr (widget_id w))) (widgets (dashboardState b))
   \<and> map (property ''savedQuery'') (map widget_json (widgets (dashboardState b)))
       = map (\<lambda>w. map_option savedQuery_json (savedQuery w)) (widgets (dashboardState b))"
  by (simp add: exportDashboard_def exportName_def dashboardData_def property_id_widget_json
      property_savedQuery_widget_json comp_def)

subsection \<open>Y-axis candidates\<close>

lemma filter_keys_map_of:
  "distinct (map fst r) \<Longrightarrow>
   filter (\<lambda>key. case map_of r key of None \<Rightarrow> False | Some v \<Rightarrow> P v) (map fst r)
     = map fst (filter (\<lambda>kv. P (snd kv)) r)"
proof (induction r)
  case Nil
  then show ?case by simp
next
  case (Cons kv r)
  obtain k v where kv: "kv = (k, v)" by (cases kv)
  from Cons.prems have notin: "k \<notin> fst ` set r" and d: "distinct (map fst r)"
    by (simp_all add: kv)
  have same: "filter (\<lambda>key. case map_of ((k, v) # r) key of None \<Rightarrow> False | Some v \<Rightarrow> P v) (map fst r)
      = filter (\<lambda>key. case map_of r key of None \<Rightarrow> False | Some v \<Rightarrow> P v) (map fst r)"
    using notin by (intro filter_cong) auto
  show ?case
    using Cons.IH [OF d] same by (simp add: kv)
qed

text \<open>
  C9. For a bound query whose first result set has a first row, the Y-axis options are
  the keys of that row, in order, whose value is a number or converts to one
  (\<^verbatim>\<open>Number(value)\<close> is not NaN), and no others.
\<close>

theorem yAxisOptions_numeric_keys:
  assumes "query_results q = Some (rs # sets)"
    and "rs_results rs = Some (r # rows)"
    and "distinct (map fst r)"
  shows "yAxisOptions q = map fst (filter (\<lambda>kv. typeof_number (snd kv) \<or> \<not> isNaN_Number (snd kv)) r)
    \<and> set (yAxisOptions q) = {k. \<exists>v. (k, v) \<in> set r \<and> (typeof_number v \<or> \<not> isNaN_Number v)}"
proof -
  have eq: "yAxisOptions q = map fst (filter (\<lambda>kv. typeof_number (snd kv) \<or> \<not> isNaN_Number (snd kv)) r)"
    using assms by (simp add: yAxisOptions_def filter_keys_map_of)
  then show ?thesis by force
qed

lemma sample_numeric:
  "\<not> string_numeric ''x''" "string_numeric ''3''"
  by (simp_all add: string_numeric_def trim_def is_white_def unsigned_decimal_def is_digit_def
      exponent_part_def digits_def)

text \<open>An instance: the row \<^verbatim>\<open>{a: "x", b: 5, c: "3"}\<close> gives \<^verbatim>\<open>b\<close> and \<^verbatim>\<open>c\<close>.\<close>

theorem yAxisOptions_numeric_keys_witness:
  "query_results (queryWithRows [sampleRow]) = Some [\<lparr>rs_results = Some [sampleRow]\<rparr>]
   \<and> distinct (map fst sampleRow)
   \<and> yAxisOptions (queryWithRows [sampleRow]) = [''b'', ''c'']"
proof -
  have h1: "query_results (queryWithRows [sampleRow]) = Some (\<lparr>rs_results = Some [sampleRow]\<rparr> # [])"
    by (simp add: queryWithRows_def)
  have h2: "rs_results \<lparr>rs_results = Some [sampleRow]\<rparr> = Some (sampleRow # [])"
    by simp
  have h3: "distinct (map fst sampleRow)"
    by (simp add: sampleRow_def)
  show ?thesis
    using yAxisOptions_numeric_keys [OF h1 h2 h3] h1 h3
    by (simp add: sampleRow_def sample_numeric)
qed

end
